theory Spec2Isabelle
  imports Main
begin

section \<open>The credential check of auth.ts\<close>

text \<open>
  The module under study is \<^verbatim>\<open>src/auth.ts\<close>: a lazily initialised database handle
  (\<^verbatim>\<open>getDb\<close>), a lookup of one user by email (\<^verbatim>\<open>getUser\<close>) and the callback
  \<^verbatim>\<open>authorize\<close> handed to the credentials provider. The callback returns a user object
  or \<^verbatim>\<open>null\<close>, or it throws; it also writes to the console. All of that is made
  explicit below: a result is either \<open>Returned\<close> or \<open>Thrown\<close>, the module variable
  \<^verbatim>\<open>sql\<close> lives in a \<open>world\<close> record, and every externally visible effect is
  appended to a trace.
\<close>

subsection \<open>Data\<close>

text \<open>
  The argument of \<^verbatim>\<open>authorize\<close> is an object whose fields have unknown type.
  A field that is absent is \<open>None\<close>; a field that is present holds a JavaScript value.
\<close>

datatype jsval = JUndefined | JNull | JBool bool | JNum int | JStr string

type_synonym raw_credentials = "string \<rightharpoonup> jsval"

text \<open>
  The row type \<^verbatim>\<open>User\<close> of the \<^verbatim>\<open>users\<close> table. The column \<^verbatim>\<open>id\<close> is called
  \<open>user_id\<close> here; \<open>password\<close> is the column that stores the bcrypt hash.
\<close>

record user =
  user_id :: string
  name :: string
  email :: string
  password :: string

text \<open>A JavaScript \<^verbatim>\<open>Error\<close> with its message.\<close>

datatype error = Error string

text \<open>What a call gives back: a value, or an exception that leaves the function.\<close>

datatype 'a result = Returned 'a | Thrown error

text \<open>
  A handle as \<^verbatim>\<open>postgres(url, { ssl: 'require' })\<close> returns it, named by the two
  arguments it was made from. Whether the call returns one at all is up to the driver,
  see \<open>postgres\<close> below.
\<close>

datatype conn = Postgres string string

text \<open>
  What the database behind a handle does with a query: it fails with the driver's error
  (connection refused, timeout), or it is up and holds the rows of \<^verbatim>\<open>users\<close>.
\<close>

datatype storage = Outage error | Table "user list"

text \<open>The effects of the module that are visible from outside, in the order they occur.\<close>

datatype event =
    Query conn string
  | Compare string string
  | ConsoleLog string
  | ConsoleError string error

record world =
  sql :: "conn option"
  trace :: "event list"

text \<open>
  Everything the module takes from its surroundings: the email test of
  \<^verbatim>\<open>z.string().email()\<close>, \<^verbatim>\<open>bcrypt.compare\<close> (on two strings it resolves to a
  boolean), the environment variable \<^verbatim>\<open>POSTGRES_URL\<close>, the driver's
  \<^verbatim>\<open>postgres(url, { ssl })\<close> and the database reached through a handle. The driver
  reads the URL when the handle is made and throws on a string that is no URL, so
  \<open>postgres\<close> gives a result. They are libraries and services outside the module, so
  a property below holds for whatever they are.
\<close>

record host =
  z_email :: "string \<Rightarrow> bool"
  bcrypt_compare :: "string \<Rightarrow> string \<Rightarrow> bool"
  POSTGRES_URL :: "string option"
  postgres :: "string \<Rightarrow> string \<Rightarrow> conn result"
  server :: "conn \<Rightarrow> storage"

subsection \<open>Operations\<close>

definition emit :: "event \<Rightarrow> world \<Rightarrow> world" where
  "emit ev w = w\<lparr>trace := trace w @ [ev]\<rparr>"

text \<open>
  \<^verbatim>\<open>getDb\<close>: the handle is made on first use. \<^verbatim>\<open>!process.env.POSTGRES_URL\<close> holds
  for an unset variable and for the empty string. The assignment to \<^verbatim>\<open>sql\<close> comes
  after the check and after the call of \<^verbatim>\<open>postgres\<close>, so a throw of either leaves
  \<^verbatim>\<open>sql\<close> as it was.
\<close>

definition getDb :: "host \<Rightarrow> world \<Rightarrow> conn result \<times> world" where
  "getDb h w =
     (case sql w of
        Some c \<Rightarrow> (Returned c, w)
      | None \<Rightarrow>
          (case POSTGRES_URL h of
             None \<Rightarrow> (Thrown (Error ''POSTGRES_URL environment variable is not set''), w)
           | Some url \<Rightarrow>
               if url = []
               then (Thrown (Error ''POSTGRES_URL environment variable is not set''), w)
               else
                 (case postgres h url ''require'' of
                    Thrown err \<Rightarrow> (Thrown err, w)
                  | Returned c \<Rightarrow> (Returned c, w\<lparr>sql := Some c\<rparr>))))"

text \<open>The query \<^verbatim>\<open>SELECT * FROM users WHERE email=${email}\<close> sent through a handle.\<close>

definition select_users :: "host \<Rightarrow> conn \<Rightarrow> string \<Rightarrow> user list result" where
  "select_users h c e =
     (case server h c of
        Outage err \<Rightarrow> Thrown err
      | Table rows \<Rightarrow> Returned (filter (\<lambda>u. email u = e) rows))"

text \<open>\<^verbatim>\<open>user[0]\<close>: the first row, \<^verbatim>\<open>undefined\<close> when there is none.\<close>

definition first_row :: "user list \<Rightarrow> user option" where
  "first_row rows = (case rows of [] \<Rightarrow> None | u # _ \<Rightarrow> Some u)"

text \<open>
  \<^verbatim>\<open>getUser\<close>: the \<^verbatim>\<open>try\<close> block covers both \<^verbatim>\<open>getDb()\<close> and the query; the
  \<^verbatim>\<open>catch\<close> logs what was caught and throws a fresh error.
\<close>

definition getUser :: "host \<Rightarrow> string \<Rightarrow> world \<Rightarrow> user option result \<times> world" where
  "getUser h e w =
     (case getDb h w of
        (Thrown err, w1) \<Rightarrow>
          (Thrown (Error ''Failed to fetch user.''),
           emit (ConsoleError ''Failed to fetch user:'' err) w1)
      | (Returned c, w1) \<Rightarrow>
          (case select_users h c e of
             Thrown err \<Rightarrow>
               (Thrown (Error ''Failed to fetch user.''),
                emit (ConsoleError ''Failed to fetch user:'' err) (emit (Query c e) w1))
           | Returned rows \<Rightarrow> (Returned (first_row rows), emit (Query c e) w1)))"

text \<open>
  The schema \<^verbatim>\<open>z.object({ email: z.string().email(), password: z.string().min(6) })\<close>
  under \<^verbatim>\<open>safeParse\<close>: success carries the two strings, failure is \<open>None\<close>.
\<close>

definition safeParse :: "host \<Rightarrow> raw_credentials \<Rightarrow> (string \<times> string) option" where
  "safeParse h raw =
     (case raw ''email'' of
        Some (JStr e) \<Rightarrow>
          (case raw ''password'' of
             Some (JStr p) \<Rightarrow> if z_email h e \<and> 6 \<le> length p then Some (e, p) else None
           | _ \<Rightarrow> None)
      | _ \<Rightarrow> None)"

text \<open>The tail of \<^verbatim>\<open>authorize\<close>: log \<^verbatim>\<open>'Invalid credentials'\<close>, return \<^verbatim>\<open>null\<close>.\<close>

definition invalid_credentials :: "world \<Rightarrow> user option result \<times> world" where
  "invalid_credentials w = (Returned None, emit (ConsoleLog ''Invalid credentials'') w)"

definition authorize :: "host \<Rightarrow> raw_credentials \<Rightarrow> world \<Rightarrow> user option result \<times> world" where
  "authorize h raw w =
     (case safeParse h raw of
        None \<Rightarrow> invalid_credentials w
      | Some (e, p) \<Rightarrow>
          (case getUser h e w of
             (Thrown err, w1) \<Rightarrow> (Thrown err, w1)
           | (Returned None, w1) \<Rightarrow> (Returned None, w1)
           | (Returned (Some u), w1) \<Rightarrow>
               if bcrypt_compare h p (password u)
               then (Returned (Some u), emit (Compare p (password u)) w1)
               else invalid_credentials (emit (Compare p (password u)) w1)))"

text \<open>The events a call has added: the trace after it, less the trace before it.\<close>

definition effects_of :: "world \<Rightarrow> world \<Rightarrow> event list" where
  "effects_of w w' = drop (length (trace w)) (trace w')"

subsection \<open>A small installation to run the definitions on\<close>

text \<open>
  Three rows, two of them with the same email, an email test that only looks for
  \<open>@\<close>, a stand-in for bcrypt under which the hash of \<open>p\<close> is
  \<open>''hash-of-'' @ p\<close>, and a driver that takes a URL for one when it starts with
  \<open>postgres://\<close>. They serve as concrete inputs only.
\<close>

definition alice :: user where
  "alice = \<lparr>user_id = ''1'', name = ''Alice'', email = ''user@example.com'',
            password = ''hash-of-123456''\<rparr>"

definition alice_twin :: user where
  "alice_twin = \<lparr>user_id = ''2'', name = ''Twin'', email = ''user@example.com'',
                 password = ''hash-of-abcdef''\<rparr>"

definition bob :: user where
  "bob = \<lparr>user_id = ''3'', name = ''Bob'', email = ''bob@example.com'',
          password = ''hash-of-hunter22''\<rparr>"

definition demo_conn :: conn where
  "demo_conn = Postgres ''postgres://db.example/app'' ''require''"

definition demo_host :: "user list \<Rightarrow> host" where
  "demo_host rows =
     \<lparr>z_email = (\<lambda>s. CHR ''@'' \<in> set s),
      bcrypt_compare = (\<lambda>p hsh. hsh = ''hash-of-'' @ p),
      POSTGRES_URL = Some ''postgres://db.example/app'',
      postgres = (\<lambda>url ssl. if take 11 url = ''postgres://''
                             then Returned (Postgres url ssl)
                             else Thrown (Error ''Invalid URL'')),
      server = (\<lambda>c. Table rows)\<rparr>"

definition down_host :: host where
  "down_host = (demo_host [])\<lparr>server := (\<lambda>c. Outage (Error ''connect ETIMEDOUT''))\<rparr>"

definition unset_host :: host where
  "unset_host = (demo_host [alice, bob])\<lparr>POSTGRES_URL := None\<rparr>"

definition bad_url_host :: host where
  "bad_url_host = (demo_host [alice, bob])\<lparr>POSTGRES_URL := Some ''not a url''\<rparr>"

definition fresh :: world where
  "fresh = \<lparr>sql = None, trace = []\<rparr>"

definition creds :: "string \<Rightarrow> string \<Rightarrow> raw_credentials" where
  "creds e p = [''email'' \<mapsto> JStr e, ''password'' \<mapsto> JStr p]"

section \<open>Properties\<close>

subsection \<open>The database handle\<close>

lemma getDb_cached: "sql w = Some c \<Longrightarrow> getDb h w = (Returned c, w)"
  by (simp add: getDb_def)

lemma getDb_trace: "trace (snd (getDb h w)) = trace w"
  by (simp add: getDb_def split: option.splits result.splits)

lemma getDb_Thrown_unchanged: "fst (getDb h w) = Thrown err \<Longrightarrow> snd (getDb h w) = w"
  by (auto simp: getDb_def split: option.splits result.splits if_splits)

lemma getDb_sql_None:
  "sql w = None \<Longrightarrow> POSTGRES_URL h = None \<or> POSTGRES_URL h = Some [] \<Longrightarrow>
   getDb h w = (Thrown (Error ''POSTGRES_URL environment variable is not set''), w)"
  by (auto simp: getDb_def)

subsection \<open>The lookup\<close>

lemma emit_trace: "trace (emit ev w) = trace w @ [ev]"
  by (simp add: emit_def)

lemma emit_sql: "sql (emit ev w) = sql w"
  by (simp add: emit_def)

lemma first_row_filter_unique:
  assumes "u \<in> set rows" and "email u = e" and "\<forall>v\<in>set rows. email v = e \<longrightarrow> v = u"
  shows "first_row (filter (\<lambda>v. email v = e) rows) = Some u"
proof (cases "filter (\<lambda>v. email v = e) rows")
  case Nil
  with assms(1,2) show ?thesis by (auto simp: filter_empty_conv)
next
  case (Cons x xs)
  then have "x \<in> set (filter (\<lambda>v. email v = e) rows)" by simp
  with assms(3) have "x = u" by simp
  with Cons show ?thesis by (simp add: first_row_def)
qed

lemma first_row_filter_absent:
  "\<forall>v\<in>set rows. email v \<noteq> e \<Longrightarrow> first_row (filter (\<lambda>v. email v = e) rows) = None"
  by (simp add: first_row_def filter_empty_conv[THEN iffD2])

lemma first_row_SomeD:
  assumes "first_row (filter P rows) = Some u"
  shows "u \<in> set rows \<and> P u"
proof -
  from assms obtain xs where "filter P rows = u # xs"
    by (auto simp: first_row_def split: list.splits)
  then have "u \<in> set (filter P rows)" by simp
  then show ?thesis by simp
qed

lemma getUser_up:
  assumes "fst (getDb h w) = Returned c" and "server h c = Table rows"
  shows "getUser h e w =
           (Returned (first_row (filter (\<lambda>v. email v = e) rows)), emit (Query c e) (snd (getDb h w)))"
  using assms by (cases "getDb h w") (simp add: getUser_def select_users_def)

lemma getUser_down:
  assumes "fst (getDb h w) = Returned c" and "server h c = Outage err"
  shows "getUser h e w =
           (Thrown (Error ''Failed to fetch user.''),
            emit (ConsoleError ''Failed to fetch user:'' err) (emit (Query c e) (snd (getDb h w))))"
  using assms by (cases "getDb h w") (simp add: getUser_def select_users_def)

lemma getUser_unconfigured:
  assumes "fst (getDb h w) = Thrown err"
  shows "getUser h e w =
           (Thrown (Error ''Failed to fetch user.''),
            emit (ConsoleError ''Failed to fetch user:'' err) (snd (getDb h w)))"
  using assms by (cases "getDb h w") (simp add: getUser_def)

lemma getUser_SomeD:
  assumes "fst (getUser h e w) = Returned (Some u)"
  shows "\<exists>c rows. fst (getDb h w) = Returned c \<and> server h c = Table rows
           \<and> u \<in> set rows \<and> email u = e"
proof -
  from assms obtain c where c: "fst (getDb h w) = Returned c"
    by (cases "getDb h w") (auto simp: getUser_def split: result.splits)
  from assms c obtain rows where rows: "server h c = Table rows"
    by (cases "getDb h w"; cases "server h c") (auto simp: getUser_def select_users_def)
  from assms have "first_row (filter (\<lambda>v. email v = e) rows) = Some u"
    by (simp add: getUser_up [OF c rows])
  then have "u \<in> set rows \<and> email u = e"
    by (rule first_row_SomeD)
  with c rows show ?thesis by blast
qed

lemma getUser_trace:
  "trace (snd (getUser h e w)) = trace w @
     (case fst (getDb h w) of
        Thrown err \<Rightarrow> [ConsoleError ''Failed to fetch user:'' err]
      | Returned c \<Rightarrow>
          (case server h c of
             Outage err \<Rightarrow> [Query c e, ConsoleError ''Failed to fetch user:'' err]
           | Table rows \<Rightarrow> [Query c e]))"
proof (cases "fst (getDb h w)")
  case (Thrown err)
  then show ?thesis
    by (simp add: getUser_unconfigured emit_trace getDb_trace)
next
  case (Returned c)
  show ?thesis
  proof (cases "server h c")
    case (Outage err)
    with Returned show ?thesis
      by (simp add: getUser_down emit_trace getDb_trace)
  next
    case (Table rows)
    with Returned show ?thesis
      by (simp add: getUser_up emit_trace getDb_trace)
  qed
qed

lemma getUser_queries:
  "\<exists>evs. trace (snd (getUser h e w)) = trace w @ evs
       \<and> (\<forall>c e'. Query c e' \<in> set evs \<longrightarrow> e' = e) \<and> (\<forall>p hsh. Compare p hsh \<notin> set evs)"
  by (simp add: getUser_trace split: result.splits storage.splits)

subsection \<open>Validation and the callback\<close>

lemma safeParse_valid:
  assumes "raw ''email'' = Some (JStr e)" and "raw ''password'' = Some (JStr p)"
    and "z_email h e" and "6 \<le> length p"
  shows "safeParse h raw = Some (e, p)"
  using assms by (simp add: safeParse_def)

lemma safeParse_Some_iff:
  "safeParse h raw = Some (e, p) \<longleftrightarrow>
     raw ''email'' = Some (JStr e) \<and> raw ''password'' = Some (JStr p) \<and> z_email h e \<and> 6 \<le> length p"
  by (auto simp: safeParse_def split: option.splits jsval.splits)

lemma safeParse_None_iff:
  "safeParse h raw = None \<longleftrightarrow>
     raw ''email'' = None \<or> raw ''password'' = None
     \<or> (\<forall>s. raw ''email'' \<noteq> Some (JStr s)) \<or> (\<forall>s. raw ''password'' \<noteq> Some (JStr s))
     \<or> (\<exists>s. raw ''email'' = Some (JStr s) \<and> \<not> z_email h s)
     \<or> (\<exists>s. raw ''password'' = Some (JStr s) \<and> length s < 6)"
  by (auto simp: safeParse_def split: option.splits jsval.splits)

lemma authorize_parsed:
  assumes "safeParse h raw = Some (e, p)"
  shows "authorize h raw w =
     (case getUser h e w of
        (Thrown err, w1) \<Rightarrow> (Thrown err, w1)
      | (Returned None, w1) \<Rightarrow> (Returned None, w1)
      | (Returned (Some u), w1) \<Rightarrow>
          if bcrypt_compare h p (password u)
          then (Returned (Some u), emit (Compare p (password u)) w1)
          else invalid_credentials (emit (Compare p (password u)) w1))"
  using assms by (simp add: authorize_def)

lemma authorize_unparsed:
  "safeParse h raw = None \<Longrightarrow> authorize h raw w = invalid_credentials w"
  by (simp add: authorize_def)

lemma authorize_SomeD:
  assumes "fst (authorize h raw w) = Returned (Some u)"
  shows "\<exists>e p. safeParse h raw = Some (e, p) \<and> fst (getUser h e w) = Returned (Some u)
           \<and> bcrypt_compare h p (password u)"
  using assms
  by (auto simp: authorize_def invalid_credentials_def
           split: option.splits prod.splits result.splits if_splits)

lemma authorize_trace:
  assumes "safeParse h raw = Some (e, p)"
  shows "\<exists>evs. trace (snd (authorize h raw w)) = trace w @ evs
       \<and> (\<forall>c e'. Query c e' \<in> set evs \<longrightarrow> e' = e) \<and> (\<forall>p' hsh. Compare p' hsh \<in> set evs \<longrightarrow> p' = p)"
proof -
  obtain evs where evs: "trace (snd (getUser h e w)) = trace w @ evs"
      "\<forall>c e'. Query c e' \<in> set evs \<longrightarrow> e' = e" "\<forall>p hsh. Compare p hsh \<notin> set evs"
    using getUser_queries by blast
  obtain r w1 where g: "getUser h e w = (r, w1)" by (cases "getUser h e w")
  with evs(1) have w1: "trace w1 = trace w @ evs" by simp
  show ?thesis
  proof (cases r)
    case (Thrown err)
    with g w1 evs(2,3) show ?thesis
      by (simp add: authorize_parsed [OF assms])
  next
    case (Returned uo)
    show ?thesis
    proof (cases uo)
      case None
      with Returned g w1 evs(2,3) show ?thesis
        by (simp add: authorize_parsed [OF assms])
    next
      case (Some u)
      with Returned g w1 evs(2,3) show ?thesis
        by (auto simp: authorize_parsed [OF assms] invalid_credentials_def emit_trace)
    qed
  qed
qed

lemma effects_of_append: "trace w' = trace w @ evs \<Longrightarrow> effects_of w w' = evs"
  by (simp add: effects_of_def)

subsection \<open>Runs of the small installation\<close>

lemmas run_defs =
  authorize_def getUser_def getDb_def select_users_def first_row_def safeParse_def
  invalid_credentials_def emit_def

lemmas demo_defs =
  demo_host_def down_host_def unset_host_def bad_url_host_def fresh_def creds_def demo_conn_def
  alice_def alice_twin_def bob_def

lemma demo_getDb:
  "fst (getDb (demo_host rows) fresh) = Returned demo_conn"
  by (simp add: getDb_def demo_host_def fresh_def demo_conn_def)

lemma demo_server: "server (demo_host rows) c = Table rows"
  by (simp add: demo_host_def)

lemma creds_email: "creds e p ''email'' = Some (JStr e)"
  by (simp add: creds_def)

lemma creds_password: "creds e p ''password'' = Some (JStr p)"
  by (simp add: creds_def)

lemma demo_z_email: "z_email (demo_host rows) s \<longleftrightarrow> CHR ''@'' \<in> set s"
  by (simp add: demo_host_def)

lemma demo_compare: "bcrypt_compare (demo_host rows) p hsh \<longleftrightarrow> hsh = ''hash-of-'' @ p"
  by (simp add: demo_host_def)

section \<open>The claims\<close>

text \<open>
  Claim C1. A valid-shaped input (the email passes the email test, the password has at
  least six characters) whose email is that of a stored record, and whose password
  verifies against that record's hash, is answered with that record, and the record's
  email is the input email. The record is \<^emph>\<open>the\<close> stored record for the email:
  the data model keeps one record per email, so every stored row with that email is
  this record. The database is reachable: \<^verbatim>\<open>getDb\<close> yields a handle and the
  server behind it holds the rows.
\<close>

theorem authorize_accepts:
  assumes "raw ''email'' = Some (JStr e)" and "raw ''password'' = Some (JStr p)"
    and "z_email h e" and "6 \<le> length p"
    and "fst (getDb h w) = Returned c" and "server h c = Table rows"
    and "u \<in> set rows" and "email u = e"
    and "\<forall>v\<in>set rows. email v = e \<longrightarrow> v = u"
    and "bcrypt_compare h p (password u)"
  shows "fst (authorize h raw w) = Returned (Some u) \<and> email u = e"
proof -
  have parsed: "safeParse h raw = Some (e, p)"
    using assms(1-4) by (rule safeParse_valid)
  have "first_row (filter (\<lambda>v. email v = e) rows) = Some u"
    using assms(7-9) by (rule first_row_filter_unique)
  then have "getUser h e w = (Returned (Some u), emit (Query c e) (snd (getDb h w)))"
    using getUser_up [OF assms(5,6)] by simp
  then show ?thesis
    using assms(8,10) by (simp add: authorize_parsed [OF parsed])
qed

text \<open>Claim C1 on the scenario of a matching record whose hash verifies.\<close>

theorem authorize_accepts_witness:
  "fst (authorize (demo_host [alice, bob]) (creds ''user@example.com'' ''123456'') fresh)
     = Returned (Some alice)
   \<and> email alice = ''user@example.com''"
proof (rule authorize_accepts)
  show "creds ''user@example.com'' ''123456'' ''email'' = Some (JStr ''user@example.com'')"
    by (rule creds_email)
  show "creds ''user@example.com'' ''123456'' ''password'' = Some (JStr ''123456'')"
    by (rule creds_password)
  show "z_email (demo_host [alice, bob]) ''user@example.com''"
    by (simp add: demo_z_email)
  show "6 \<le> length ''123456''" by simp
  show "fst (getDb (demo_host [alice, bob]) fresh) = Returned demo_conn"
    by (rule demo_getDb)
  show "server (demo_host [alice, bob]) demo_conn = Table [alice, bob]"
    by (rule demo_server)
  show "alice \<in> set [alice, bob]" by simp
  show "email alice = ''user@example.com''" by (simp add: alice_def)
  show "\<forall>v\<in>set [alice, bob]. email v = ''user@example.com'' \<longrightarrow> v = alice"
    by (simp add: alice_def bob_def)
  show "bcrypt_compare (demo_host [alice, bob]) ''123456'' (password alice)"
    by (simp add: demo_compare alice_def)
qed

text \<open>
  Claim C2. A valid-shaped input is answered with \<^verbatim>\<open>null\<close>, the callback's
  rejection, when no stored record has the email, or when the stored record for the
  email fails the hash verification.
\<close>

theorem authorize_rejects:
  assumes "raw ''email'' = Some (JStr e)" and "raw ''password'' = Some (JStr p)"
    and "z_email h e" and "6 \<le> length p"
    and "fst (getDb h w) = Returned c" and "server h c = Table rows"
    and "(\<forall>v\<in>set rows. email v \<noteq> e)
       \<or> (\<exists>u\<in>set rows. email u = e \<and> (\<forall>v\<in>set rows. email v = e \<longrightarrow> v = u)
                         \<and> \<not> bcrypt_compare h p (password u))"
  shows "fst (authorize h raw w) = Returned None"
proof -
  have parsed: "safeParse h raw = Some (e, p)"
    using assms(1-4) by (rule safeParse_valid)
  note lookup = getUser_up [OF assms(5,6), of e]
  from assms(7) show ?thesis
  proof
    assume "\<forall>v\<in>set rows. email v \<noteq> e"
    then have "first_row (filter (\<lambda>v. email v = e) rows) = None"
      by (rule first_row_filter_absent)
    with lookup show ?thesis
      by (simp add: authorize_parsed [OF parsed])
  next
    assume "\<exists>u\<in>set rows. email u = e \<and> (\<forall>v\<in>set rows. email v = e \<longrightarrow> v = u)
                         \<and> \<not> bcrypt_compare h p (password u)"
    then obtain u where u: "u \<in> set rows" "email u = e"
        "\<forall>v\<in>set rows. email v = e \<longrightarrow> v = u" "\<not> bcrypt_compare h p (password u)"
      by blast
    from u(1-3) have "first_row (filter (\<lambda>v. email v = e) rows) = Some u"
      by (rule first_row_filter_unique)
    with lookup u(4) show ?thesis
      by (simp add: authorize_parsed [OF parsed] invalid_credentials_def)
  qed
qed

text \<open>Claim C2 on two runs: no matching record, and a wrong password.\<close>

theorem authorize_rejects_witness:
  "fst (authorize (demo_host [bob]) (creds ''user@example.com'' ''123456'') fresh) = Returned None
   \<and> fst (authorize (demo_host [alice, bob]) (creds ''user@example.com'' ''1234567'') fresh)
       = Returned None"
proof
  show "fst (authorize (demo_host [bob]) (creds ''user@example.com'' ''123456'') fresh)
          = Returned None"
  proof (rule authorize_rejects)
    show "creds ''user@example.com'' ''123456'' ''email'' = Some (JStr ''user@example.com'')"
      by (rule creds_email)
    show "creds ''user@example.com'' ''123456'' ''password'' = Some (JStr ''123456'')"
      by (rule creds_password)
    show "z_email (demo_host [bob]) ''user@example.com''"
      by (simp add: demo_z_email)
    show "6 \<le> length ''123456''" by simp
    show "fst (getDb (demo_host [bob]) fresh) = Returned demo_conn"
      by (rule demo_getDb)
    show "server (demo_host [bob]) demo_conn = Table [bob]"
      by (rule demo_server)
    show "(\<forall>v\<in>set [bob]. email v \<noteq> ''user@example.com'')
        \<or> (\<exists>u\<in>set [bob]. email u = ''user@example.com''
              \<and> (\<forall>v\<in>set [bob]. email v = ''user@example.com'' \<longrightarrow> v = u)
              \<and> \<not> bcrypt_compare (demo_host [bob]) ''123456'' (password u))"
      by (simp add: bob_def)
  qed
next
  show "fst (authorize (demo_host [alice, bob]) (creds ''user@example.com'' ''1234567'') fresh)
          = Returned None"
  proof (rule authorize_rejects)
    show "creds ''user@example.com'' ''1234567'' ''email'' = Some (JStr ''user@example.com'')"
      by (rule creds_email)
    show "creds ''user@example.com'' ''1234567'' ''password'' = Some (JStr ''1234567'')"
      by (rule creds_password)
    show "z_email (demo_host [alice, bob]) ''user@example.com''"
      by (simp add: demo_z_email)
    show "6 \<le> length ''1234567''" by simp
    show "fst (getDb (demo_host [alice, bob]) fresh) = Returned demo_conn"
      by (rule demo_getDb)
    show "server (demo_host [alice, bob]) demo_conn = Table [alice, bob]"
      by (rule demo_server)
    show "(\<forall>v\<in>set [alice, bob]. email v \<noteq> ''user@example.com'')
        \<or> (\<exists>u\<in>set [alice, bob]. email u = ''user@example.com''
              \<and> (\<forall>v\<in>set [alice, bob]. email v = ''user@example.com'' \<longrightarrow> v = u)
              \<and> \<not> bcrypt_compare (demo_host [alice, bob]) ''1234567'' (password u))"
      by (simp add: alice_def bob_def demo_compare)
  qed
qed

text \<open>
  Claim C3. A raw input that lacks the email field or the password field, has a field
  that is not a string, has an email that fails the email test, or has a password
  shorter than six, is answered with \<^verbatim>\<open>null\<close>: one uniform value, with no detail
  about the field that failed.
\<close>

theorem authorize_malformed:
  assumes "raw ''email'' = None \<or> raw ''password'' = None
     \<or> (\<forall>s. raw ''email'' \<noteq> Some (JStr s)) \<or> (\<forall>s. raw ''password'' \<noteq> Some (JStr s))
     \<or> (\<exists>s. raw ''email'' = Some (JStr s) \<and> \<not> z_email h s)
     \<or> (\<exists>s. raw ''password'' = Some (JStr s) \<and> length s < 6)"
  shows "fst (authorize h raw w) = Returned None"
proof -
  from assms have "safeParse h raw = None"
    by (simp only: safeParse_None_iff)
  then show ?thesis
    by (simp add: authorize_unparsed invalid_credentials_def)
qed

text \<open>Claim C3 on a short password, a missing email and a numeric password.\<close>

theorem authorize_malformed_witness:
  "fst (authorize (demo_host [alice, bob]) (creds ''user@example.com'' ''short'') fresh)
     = Returned None
   \<and> fst (authorize (demo_host [alice, bob]) [''password'' \<mapsto> JStr ''123456''] fresh)
     = Returned None
   \<and> fst (authorize (demo_host [alice, bob])
            [''email'' \<mapsto> JStr ''user@example.com'', ''password'' \<mapsto> JNum 123456] fresh)
     = Returned None"
proof (intro conjI)
  show "fst (authorize (demo_host [alice, bob]) (creds ''user@example.com'' ''short'') fresh)
          = Returned None"
    by (rule authorize_malformed) (simp add: creds_def)
  show "fst (authorize (demo_host [alice, bob]) [''password'' \<mapsto> JStr ''123456''] fresh)
          = Returned None"
    by (rule authorize_malformed) simp
  show "fst (authorize (demo_host [alice, bob])
            [''email'' \<mapsto> JStr ''user@example.com'', ''password'' \<mapsto> JNum 123456] fresh)
          = Returned None"
    by (rule authorize_malformed) simp
qed

text \<open>
  Claim C4, as stated, asks for three outcomes that the caller can tell apart. The
  callback has no value for malformed input: an input with a short password and an input
  with an unknown email both come back as \<^verbatim>\<open>null\<close>. A database outage gives a
  fourth outcome, an exception.
\<close>

theorem malformed_and_rejected_coincide:
  "safeParse (demo_host [alice, bob]) (creds ''user@example.com'' ''short'') = None
   \<and> safeParse (demo_host [alice, bob]) (creds ''nobody@example.com'' ''123456'')
       = Some (''nobody@example.com'', ''123456'')
   \<and> fst (authorize (demo_host [alice, bob]) (creds ''user@example.com'' ''short'') fresh)
       = Returned None
   \<and> fst (authorize (demo_host [alice, bob]) (creds ''nobody@example.com'' ''123456'') fresh)
       = Returned None
   \<and> fst (authorize down_host (creds ''user@example.com'' ''123456'') fresh)
       = Thrown (Error ''Failed to fetch user.'')"
  by (simp add: run_defs demo_defs)

text \<open>
  Claim C4, amended. Every call of \<^verbatim>\<open>authorize\<close> ends in one of three outcomes:
  a returned user, \<^verbatim>\<open>null\<close>, or the exception \<^verbatim>\<open>Failed to fetch user.\<close>
  (three different values of the result type, so exactly one of them applies).
  Malformed input yields \<^verbatim>\<open>null\<close>, and so does a valid-shaped input whose lookup
  finds nobody: the returned value does not tell the two apart.
\<close>

theorem authorize_outcomes:
  "((\<exists>u. fst (authorize h raw w) = Returned (Some u))
     \<or> fst (authorize h raw w) = Returned None
     \<or> fst (authorize h raw w) = Thrown (Error ''Failed to fetch user.''))
   \<and> (safeParse h raw = None \<longrightarrow> fst (authorize h raw w) = Returned None)
   \<and> (\<forall>e p. safeParse h raw = Some (e, p) \<and> fst (getUser h e w) = Returned None \<longrightarrow>
         fst (authorize h raw w) = Returned None)"
  by (auto simp: authorize_def getUser_def invalid_credentials_def
           split: option.splits prod.splits result.splits)

text \<open>Claim C4, amended, on a malformed input and on an unknown email.\<close>

theorem authorize_outcomes_witness:
  "safeParse (demo_host [alice, bob]) (creds ''user@example.com'' ''short'') = None
   \<and> fst (authorize (demo_host [alice, bob]) (creds ''user@example.com'' ''short'') fresh)
       = Returned None
   \<and> safeParse (demo_host [alice, bob]) (creds ''nobody@example.com'' ''123456'')
       = Some (''nobody@example.com'', ''123456'')
   \<and> fst (getUser (demo_host [alice, bob]) ''nobody@example.com'' fresh) = Returned None
   \<and> fst (authorize (demo_host [alice, bob]) (creds ''nobody@example.com'' ''123456'') fresh)
       = Returned None"
proof -
  let ?h = "demo_host [alice, bob]"
  have bad: "safeParse ?h (creds ''user@example.com'' ''short'') = None"
    by (simp add: safeParse_def creds_def)
  have good: "safeParse ?h (creds ''nobody@example.com'' ''123456'')
                = Some (''nobody@example.com'', ''123456'')"
    by (simp add: safeParse_def creds_def demo_z_email)
  have miss: "fst (getUser ?h ''nobody@example.com'' fresh) = Returned None"
    by (simp add: run_defs demo_defs)
  from authorize_outcomes [of ?h "creds ''user@example.com'' ''short''" fresh] bad
  have "fst (authorize ?h (creds ''user@example.com'' ''short'') fresh) = Returned None"
    by blast
  moreover
  from authorize_outcomes [of ?h "creds ''nobody@example.com'' ''123456''" fresh] good miss
  have "fst (authorize ?h (creds ''nobody@example.com'' ''123456'') fresh) = Returned None"
    by blast
  ultimately show ?thesis using bad good miss by blast
qed

text \<open>
  Claim C5, as stated, wants the hash stripped from the returned user. The callback
  returns the row of \<^verbatim>\<open>SELECT *\<close> as it is: the \<open>password\<close> field of the
  returned user is the stored hash.
\<close>

theorem returned_user_carries_hash:
  "server (demo_host [alice, bob]) demo_conn
     = Table [\<lparr>user_id = ''1'', name = ''Alice'', email = ''user@example.com'',
                password = ''hash-of-123456''\<rparr>, bob]
   \<and> fst (authorize (demo_host [alice, bob]) (creds ''user@example.com'' ''123456'') fresh)
     = Returned (Some \<lparr>user_id = ''1'', name = ''Alice'', email = ''user@example.com'',
                       password = ''hash-of-123456''\<rparr>)"
  by (simp add: run_defs demo_defs)

text \<open>
  Claim C5, amended. Whenever \<^verbatim>\<open>authorize\<close> returns a user, that user is a stored
  row, unchanged, with the email of the input; its \<open>password\<close> field is the stored
  hash, the very one the input password verified against.
\<close>

theorem authorize_returns_stored_row:
  assumes "fst (authorize h raw w) = Returned (Some u)"
  shows "\<exists>c rows e p. fst (getDb h w) = Returned c \<and> server h c = Table rows \<and> u \<in> set rows
           \<and> safeParse h raw = Some (e, p) \<and> email u = e \<and> bcrypt_compare h p (password u)"
proof -
  from assms obtain e p where ep: "safeParse h raw = Some (e, p)"
      "fst (getUser h e w) = Returned (Some u)" "bcrypt_compare h p (password u)"
    using authorize_SomeD by blast
  from ep(2) obtain c rows where "fst (getDb h w) = Returned c" "server h c = Table rows"
      "u \<in> set rows" "email u = e"
    using getUser_SomeD by blast
  with ep(1,3) show ?thesis by blast
qed

text \<open>Claim C5, amended, on the run that returns the first demo row.\<close>

theorem authorize_returns_stored_row_witness:
  "\<exists>c rows e p. fst (getDb (demo_host [alice, bob]) fresh) = Returned c
      \<and> server (demo_host [alice, bob]) c = Table rows \<and> alice \<in> set rows
      \<and> safeParse (demo_host [alice, bob]) (creds ''user@example.com'' ''123456'') = Some (e, p)
      \<and> email alice = e \<and> bcrypt_compare (demo_host [alice, bob]) p (password alice)"
proof (rule authorize_returns_stored_row)
  show "fst (authorize (demo_host [alice, bob]) (creds ''user@example.com'' ''123456'') fresh)
          = Returned (Some alice)"
    by (simp add: run_defs demo_defs)
qed

text \<open>
  Claim C6, as stated, wants a hash comparison on the path where no user is found. On
  that path the callback returns right after the query; the only event is the query.
  On the path where a user is found the comparison follows the query.
\<close>

theorem not_found_skips_compare:
  "authorize (demo_host [alice, bob]) (creds ''nobody@example.com'' ''123456'') fresh
     = (Returned None, \<lparr>sql = Some demo_conn, trace = [Query demo_conn ''nobody@example.com'']\<rparr>)
   \<and> authorize (demo_host [alice, bob]) (creds ''user@example.com'' ''1234567'') fresh
     = (Returned None,
        \<lparr>sql = Some demo_conn,
         trace = [Query demo_conn ''user@example.com'', Compare ''1234567'' ''hash-of-123456'',
                  ConsoleLog ''Invalid credentials'']\<rparr>)"
  by (simp add: run_defs demo_defs)

text \<open>
  Claim C6, amended. For a valid-shaped input whose email has no stored record,
  \<^verbatim>\<open>authorize\<close> returns \<^verbatim>\<open>null\<close> right after the lookup: the call adds the
  query to the trace and nothing else, so no hash comparison takes place.
\<close>

theorem authorize_not_found_no_compare:
  assumes "raw ''email'' = Some (JStr e)" and "raw ''password'' = Some (JStr p)"
    and "z_email h e" and "6 \<le> length p"
    and "fst (getDb h w) = Returned c" and "server h c = Table rows"
    and "\<forall>v\<in>set rows. email v \<noteq> e"
  shows "fst (authorize h raw w) = Returned None
       \<and> trace (snd (authorize h raw w)) = trace w @ [Query c e]"
proof -
  have parsed: "safeParse h raw = Some (e, p)"
    using assms(1-4) by (rule safeParse_valid)
  have "first_row (filter (\<lambda>v. email v = e) rows) = None"
    using assms(7) by (rule first_row_filter_absent)
  with getUser_up [OF assms(5,6), of e] show ?thesis
    by (simp add: authorize_parsed [OF parsed] emit_trace getDb_trace)
qed

text \<open>Claim C6, amended, on an unknown email.\<close>

theorem authorize_not_found_no_compare_witness:
  "fst (authorize (demo_host [alice, bob]) (creds ''nobody@example.com'' ''123456'') fresh)
     = Returned None
   \<and> trace (snd (authorize (demo_host [alice, bob]) (creds ''nobody@example.com'' ''123456'')
               fresh))
     = trace fresh @ [Query demo_conn ''nobody@example.com'']"
proof (rule authorize_not_found_no_compare)
  show "creds ''nobody@example.com'' ''123456'' ''email'' = Some (JStr ''nobody@example.com'')"
    by (rule creds_email)
  show "creds ''nobody@example.com'' ''123456'' ''password'' = Some (JStr ''123456'')"
    by (rule creds_password)
  show "z_email (demo_host [alice, bob]) ''nobody@example.com''"
    by (simp add: demo_z_email)
  show "6 \<le> length ''123456''" by simp
  show "fst (getDb (demo_host [alice, bob]) fresh) = Returned demo_conn"
    by (rule demo_getDb)
  show "server (demo_host [alice, bob]) demo_conn = Table [alice, bob]"
    by (rule demo_server)
  show "\<forall>v\<in>set [alice, bob]. email v \<noteq> ''nobody@example.com''"
    by (simp add: alice_def bob_def)
qed

text \<open>
  Claim C7. While the storage layer fails, \<^verbatim>\<open>getUser\<close> throws
  \<^verbatim>\<open>Failed to fetch user.\<close>, which is not the \<^verbatim>\<open>undefined\<close> of a lookup
  that finds nobody; and \<^verbatim>\<open>authorize\<close>, whenever validation lets it reach the
  lookup, lets the exception through instead of returning \<^verbatim>\<open>null\<close>.
\<close>

theorem storage_failure_thrown:
  assumes "fst (getDb h w) = Returned c" and "server h c = Outage err"
  shows "fst (getUser h e w) = Thrown (Error ''Failed to fetch user.'')
       \<and> fst (getUser h e w) \<noteq> Returned None
       \<and> (safeParse h raw \<noteq> None \<longrightarrow>
            fst (authorize h raw w) = Thrown (Error ''Failed to fetch user.'')
            \<and> fst (authorize h raw w) \<noteq> Returned None)"
proof -
  have "\<And>e'. getUser h e' w =
           (Thrown (Error ''Failed to fetch user.''),
            emit (ConsoleError ''Failed to fetch user:'' err) (emit (Query c e') (snd (getDb h w))))"
    using assms by (rule getUser_down)
  then show ?thesis
    by (auto simp: authorize_def)
qed

text \<open>Claim C7 on a server that times out.\<close>

theorem storage_failure_thrown_witness:
  "fst (getUser down_host ''user@example.com'' fresh) = Thrown (Error ''Failed to fetch user.'')
   \<and> fst (authorize down_host (creds ''user@example.com'' ''123456'') fresh)
       = Thrown (Error ''Failed to fetch user.'')"
proof -
  have up: "fst (getDb down_host fresh) = Returned demo_conn"
    by (simp add: getDb_def down_host_def demo_host_def fresh_def demo_conn_def)
  have out: "server down_host demo_conn = Outage (Error ''connect ETIMEDOUT'')"
    by (simp add: down_host_def)
  have ok: "safeParse down_host (creds ''user@example.com'' ''123456'') \<noteq> None"
    by (simp add: safeParse_def creds_def down_host_def demo_host_def)
  from storage_failure_thrown [OF up out, of "''user@example.com''"
      "creds ''user@example.com'' ''123456''"] ok
  show ?thesis by blast
qed

text \<open>
  Claim C8. Validation is a function of the input alone (\<open>safeParse\<close> takes no
  \<open>world\<close>) and comes first. A call on input that fails validation returns
  \<^verbatim>\<open>null\<close>, leaves \<^verbatim>\<open>sql\<close> untouched and adds one console line to the
  trace: no query, no hash comparison. In any call, a query or a comparison among the
  added events means that validation had succeeded, and it carries the validated
  email or password.
\<close>

theorem validation_precedes_storage:
  "(safeParse h raw = None \<longrightarrow>
      fst (authorize h raw w) = Returned None
      \<and> sql (snd (authorize h raw w)) = sql w
      \<and> effects_of w (snd (authorize h raw w)) = [ConsoleLog ''Invalid credentials''])
   \<and> (\<forall>c e. Query c e \<in> set (effects_of w (snd (authorize h raw w))) \<longrightarrow>
         (\<exists>p. safeParse h raw = Some (e, p)))
   \<and> (\<forall>p hsh. Compare p hsh \<in> set (effects_of w (snd (authorize h raw w))) \<longrightarrow>
         (\<exists>e. safeParse h raw = Some (e, p)))"
proof (cases "safeParse h raw")
  case None
  then have "authorize h raw w = (Returned None, emit (ConsoleLog ''Invalid credentials'') w)"
    by (simp add: authorize_unparsed invalid_credentials_def)
  then show ?thesis
    by (simp add: effects_of_def emit_def)
next
  case (Some ep)
  then obtain e p where ep: "safeParse h raw = Some (e, p)" by (cases ep) simp
  from authorize_trace [OF ep, of w] obtain evs where
      "trace (snd (authorize h raw w)) = trace w @ evs"
      "\<forall>c e'. Query c e' \<in> set evs \<longrightarrow> e' = e" "\<forall>p' hsh. Compare p' hsh \<in> set evs \<longrightarrow> p' = p"
    by blast
  with ep show ?thesis
    by (auto simp: effects_of_append)
qed

text \<open>Claim C8 on a short password, and on a run that reaches the database.\<close>

theorem validation_precedes_storage_witness:
  "safeParse (demo_host [alice, bob]) (creds ''user@example.com'' ''short'') = None
   \<and> fst (authorize (demo_host [alice, bob]) (creds ''user@example.com'' ''short'') fresh)
       = Returned None
   \<and> sql (snd (authorize (demo_host [alice, bob]) (creds ''user@example.com'' ''short'') fresh))
       = sql fresh
   \<and> effects_of fresh
        (snd (authorize (demo_host [alice, bob]) (creds ''user@example.com'' ''short'') fresh))
       = [ConsoleLog ''Invalid credentials'']
   \<and> Query demo_conn ''user@example.com'' \<in> set (effects_of fresh
        (snd (authorize (demo_host [alice, bob]) (creds ''user@example.com'' ''123456'') fresh)))
   \<and> Compare ''123456'' ''hash-of-123456'' \<in> set (effects_of fresh
        (snd (authorize (demo_host [alice, bob]) (creds ''user@example.com'' ''123456'') fresh)))
   \<and> (\<exists>p. safeParse (demo_host [alice, bob]) (creds ''user@example.com'' ''123456'')
              = Some (''user@example.com'', p))
   \<and> (\<exists>e. safeParse (demo_host [alice, bob]) (creds ''user@example.com'' ''123456'')
              = Some (e, ''123456''))"
proof -
  let ?h = "demo_host [alice, bob]"
  have bad: "safeParse ?h (creds ''user@example.com'' ''short'') = None"
    by (simp add: safeParse_def creds_def)
  have q: "Query demo_conn ''user@example.com'' \<in> set (effects_of fresh
        (snd (authorize ?h (creds ''user@example.com'' ''123456'') fresh)))"
    by (simp add: effects_of_def run_defs demo_defs)
  have c: "Compare ''123456'' ''hash-of-123456'' \<in> set (effects_of fresh
        (snd (authorize ?h (creds ''user@example.com'' ''123456'') fresh)))"
    by (simp add: effects_of_def run_defs demo_defs)
  from validation_precedes_storage [of ?h "creds ''user@example.com'' ''short''" fresh] bad
  have "fst (authorize ?h (creds ''user@example.com'' ''short'') fresh) = Returned None
      \<and> sql (snd (authorize ?h (creds ''user@example.com'' ''short'') fresh)) = sql fresh
      \<and> effects_of fresh (snd (authorize ?h (creds ''user@example.com'' ''short'') fresh))
          = [ConsoleLog ''Invalid credentials'']"
    by blast
  moreover
  from validation_precedes_storage [of ?h "creds ''user@example.com'' ''123456''" fresh] q c
  have "(\<exists>p. safeParse ?h (creds ''user@example.com'' ''123456'') = Some (''user@example.com'', p))
      \<and> (\<exists>e. safeParse ?h (creds ''user@example.com'' ''123456'') = Some (e, ''123456''))"
    by blast
  ultimately show ?thesis using bad q c by blast
qed

text \<open>
  Claim C9. A failed initialisation leaves the connection state as it was. With
  \<^verbatim>\<open>sql\<close> unset and no \<^verbatim>\<open>POSTGRES_URL\<close>, \<^verbatim>\<open>getDb\<close> throws and the
  world is unchanged, \<^verbatim>\<open>sql\<close> still unset; a later call, made once the variable
  holds a URL from which the driver makes a handle, returns that handle and caches it.
  Whatever makes \<^verbatim>\<open>getDb\<close> throw, the missing variable or the driver turning the
  URL down, the world after the throw is the world before it.
\<close>

theorem getDb_failed_init_keeps_state:
  assumes "sql w = None" and "POSTGRES_URL h = None" and "url \<noteq> []"
    and "postgres h url ''require'' = Returned c"
  shows "getDb h w = (Thrown (Error ''POSTGRES_URL environment variable is not set''), w)
       \<and> sql (snd (getDb h w)) = None
       \<and> getDb (h\<lparr>POSTGRES_URL := Some url\<rparr>) (snd (getDb h w)) =
           (Returned c, w\<lparr>sql := Some c\<rparr>)
       \<and> (\<forall>h' err. fst (getDb h' w) = Thrown err \<longrightarrow> snd (getDb h' w) = w)"
proof -
  have first: "getDb h w = (Thrown (Error ''POSTGRES_URL environment variable is not set''), w)"
    using assms(1,2) by (simp add: getDb_def)
  have later: "getDb (h\<lparr>POSTGRES_URL := Some url\<rparr>) w = (Returned c, w\<lparr>sql := Some c\<rparr>)"
    using assms(1,3,4) by (simp add: getDb_def)
  have kept: "\<forall>h' err. fst (getDb h' w) = Thrown err \<longrightarrow> snd (getDb h' w) = w"
    by (simp add: getDb_Thrown_unchanged)
  from first later kept assms(1) show ?thesis by simp
qed

text \<open>
  Claim C9 on a fresh world: first without the variable, then with a URL the driver
  takes, and with a string the driver turns down.
\<close>

theorem getDb_failed_init_keeps_state_witness:
  "sql fresh = None \<and> POSTGRES_URL unset_host = None
   \<and> postgres unset_host ''postgres://db.example/app'' ''require'' = Returned demo_conn
   \<and> getDb unset_host fresh =
       (Thrown (Error ''POSTGRES_URL environment variable is not set''), fresh)
   \<and> getDb (unset_host\<lparr>POSTGRES_URL := Some ''postgres://db.example/app''\<rparr>)
         (snd (getDb unset_host fresh)) =
       (Returned demo_conn, fresh\<lparr>sql := Some demo_conn\<rparr>)
   \<and> fst (getDb bad_url_host fresh) = Thrown (Error ''Invalid URL'')
   \<and> snd (getDb bad_url_host fresh) = fresh"
proof -
  have a: "sql fresh = None" by (simp add: fresh_def)
  have b: "POSTGRES_URL unset_host = None" by (simp add: unset_host_def)
  have c: "''postgres://db.example/app'' \<noteq> []" by simp
  have d: "postgres unset_host ''postgres://db.example/app'' ''require'' = Returned demo_conn"
    by (simp add: unset_host_def demo_host_def demo_conn_def)
  have e: "fst (getDb bad_url_host fresh) = Thrown (Error ''Invalid URL'')"
    by (simp add: getDb_def bad_url_host_def demo_host_def fresh_def)
  from getDb_failed_init_keeps_state [OF a b c d] a b d e show ?thesis by blast
qed

text \<open>
  Claim C10. When the query yields no rows, \<^verbatim>\<open>getUser\<close> returns
  \<^verbatim>\<open>undefined\<close> and throws nothing; when it yields two rows or more,
  \<^verbatim>\<open>getUser\<close> returns the first and drops the others silently (the only
  event is the query). Nothing in the lookup asks for the email to be unique.
\<close>

theorem getUser_first_row:
  assumes "fst (getDb h w) = Returned c"
  shows "(select_users h c e = Returned [] \<longrightarrow>
            getUser h e w = (Returned None, emit (Query c e) (snd (getDb h w))))
       \<and> (select_users h c e = Returned (u # v # rest) \<longrightarrow>
            getUser h e w = (Returned (Some u), emit (Query c e) (snd (getDb h w))))"
  using assms by (cases "getDb h w") (simp add: getUser_def first_row_def)

text \<open>Claim C10 on a table with two rows for one email, and on an unknown email.\<close>

theorem getUser_first_row_witness:
  "select_users (demo_host [alice, alice_twin, bob]) demo_conn ''user@example.com''
     = Returned [alice, alice_twin]
   \<and> fst (getUser (demo_host [alice, alice_twin, bob]) ''user@example.com'' fresh)
       = Returned (Some alice)
   \<and> select_users (demo_host [alice, alice_twin, bob]) demo_conn ''nobody@example.com''
       = Returned []
   \<and> fst (getUser (demo_host [alice, alice_twin, bob]) ''nobody@example.com'' fresh)
       = Returned None"
proof -
  let ?h = "demo_host [alice, alice_twin, bob]"
  have db: "fst (getDb ?h fresh) = Returned demo_conn" by (rule demo_getDb)
  have two: "select_users ?h demo_conn ''user@example.com'' = Returned (alice # alice_twin # [])"
    by (simp add: select_users_def demo_server alice_def alice_twin_def bob_def)
  have none: "select_users ?h demo_conn ''nobody@example.com'' = Returned []"
    by (simp add: select_users_def demo_server alice_def alice_twin_def bob_def)
  from getUser_first_row [OF db, of "''user@example.com''" alice alice_twin "[]"] two
  have "fst (getUser ?h ''user@example.com'' fresh) = Returned (Some alice)" by simp
  moreover
  from getUser_first_row [OF db, of "''nobody@example.com''"] none
  have "fst (getUser ?h ''nobody@example.com'' fresh) = Returned None" by simp
  ultimately show ?thesis using two none by simp
qed

end
